theory Spec2Isabelle
  imports Main "HOL-Library.Char_ord" "HOL-Library.List_Lexorder"
begin

section \<open>Agent routing service: data model\<close>

text \<open>
  The model follows \<^verbatim>\<open>src/agent-routing-service.js\<close>. An agent row is a record whose
  nullable columns are options (\<open>None\<close> is JavaScript's \<^verbatim>\<open>null\<close>/\<^verbatim>\<open>undefined\<close>).
  Strings are compared as JavaScript compares them, lexicographically by code unit,
  which on the ASCII strings of the store (\<^verbatim>\<open>HH:MM\<close> times, direction and type tags) is
  the order of \<open>HOL-Library.List_Lexorder\<close> over \<open>HOL-Library.Char_ord\<close>.
\<close>

record agent =
  agent_id :: string
  name :: string
  agent_type :: "string option"
  voice_name :: "string option"
  language_code :: "string option"
  system_instruction :: "string option"
  greeting :: "string option"
  is_active :: bool
  max_concurrent_calls :: "int option"
  call_direction :: "string option"
  timezone :: "string option"
  business_hours_start :: "string option"
  business_hours_end :: "string option"
  business_days :: "int list option"
  twilio_phone_number :: "string option"

text \<open>A row of \<^verbatim>\<open>phone_numbers\<close> selected with its joined \<^verbatim>\<open>ai_agents (*)\<close>.\<close>

record phone_row =
  phone_number :: string
  ai_agents :: "agent option"

text \<open>The single column selected by \<^verbatim>\<open>canAgentHandleCall\<close>.\<close>

record limit_row =
  limit_max_concurrent_calls :: "int option"

text \<open>The Twilio call data destructured by \<^verbatim>\<open>routeIncomingCall\<close>.\<close>

record call_data =
  From :: string
  To :: string
  CallSid :: string

text \<open>The environment variables read by the constructor.\<close>

record process_env =
  VOICE_NAME :: "string option"
  LANGUAGE_CODE :: "string option"
  SYSTEM_INSTRUCTION :: "string option"

text \<open>The service object: its only field is \<^verbatim>\<open>this.defaultAgent\<close>.\<close>

record AgentRoutingService =
  defaultAgent :: agent

subsection \<open>The store, as the code observes it\<close>

text \<open>
  Every awaited Supabase query resolves to an object \<^verbatim>\<open>{ data, error }\<close> or rejects.
  A rejection and a \<^verbatim>\<open>TypeError\<close> are exceptions, modelled as \<open>Inl\<close>. The store and the
  clock are outside the program, so each awaited query of the source is a field of the
  record \<open>world\<close> giving what that query answers; the three list queries are the same
  query text issued at three places, at three moments, and may answer differently.
\<close>

datatype exn = TypeError | Rejected

record 'a response =
  data :: "'a option"
  error :: "string option"

record world =
  phone_numbers_single :: "string \<Rightarrow> exn + phone_row response"
  ai_agents_by_twilio_single :: "string \<Rightarrow> exn + agent response"
  ai_agents_active_hours :: "exn + agent list response"
  ai_agents_active_inbound :: "exn + agent list response"
  ai_agents_active_outbound :: "exn + agent list response"
  ai_agents_by_id_single :: "string \<Rightarrow> exn + agent response"
  ai_agents_limit_single :: "string \<Rightarrow> exn + limit_row response"
  call_logs_in_progress :: "string \<Rightarrow> exn + string list response"
  now_getDay :: int
  now_HHMM :: string

subsection \<open>Control flow: await, try and catch\<close>

definition bindE :: "exn + 'a \<Rightarrow> ('a \<Rightarrow> exn + 'b) \<Rightarrow> exn + 'b" where
  "bindE m f = (case m of Inl e \<Rightarrow> Inl e | Inr x \<Rightarrow> f x)"

definition try_catch :: "exn + 'a \<Rightarrow> (exn \<Rightarrow> exn + 'a) \<Rightarrow> exn + 'a" where
  "try_catch m h = (case m of Inl e \<Rightarrow> h e | Inr x \<Rightarrow> Inr x)"

subsection \<open>JavaScript's \<^verbatim>\<open>||\<close> on nullable values\<close>

text \<open>
  \<^verbatim>\<open>x || d\<close> yields \<^verbatim>\<open>d\<close> when \<^verbatim>\<open>x\<close> is falsy: \<^verbatim>\<open>null\<close>, \<^verbatim>\<open>undefined\<close>, the empty
  string or the number 0. An array is truthy even when empty.
\<close>

definition js_or_str :: "string option \<Rightarrow> string \<Rightarrow> string" where
  "js_or_str x d = (case x of None \<Rightarrow> d | Some s \<Rightarrow> if s = [] then d else s)"

definition js_or_arr :: "int list option \<Rightarrow> int list \<Rightarrow> int list" where
  "js_or_arr x d = (case x of None \<Rightarrow> d | Some xs \<Rightarrow> xs)"

definition js_or_num :: "int option \<Rightarrow> int \<Rightarrow> int" where
  "js_or_num x d = (case x of None \<Rightarrow> d | Some n \<Rightarrow> if n = 0 then d else n)"

section \<open>The service\<close>

definition default_instruction :: string where
  "default_instruction =
     ''You are a professional AI assistant for customer service calls. IMPORTANT: You MUST speak first immediately when the call connects. Start with a warm greeting like \"Hello! Thank you for calling. How can I help you today?\" Be helpful, polite, and efficient. Always initiate the conversation and maintain a friendly, professional tone throughout the call.''"

definition constructor :: "process_env \<Rightarrow> AgentRoutingService" where
  "constructor env =
     \<lparr> defaultAgent =
         \<lparr> agent_id = ''default'',
           name = ''Default AI Agent'',
           agent_type = Some ''general'',
           voice_name = Some (js_or_str (VOICE_NAME env) ''Puck''),
           language_code = Some (js_or_str (LANGUAGE_CODE env) ''en-US''),
           system_instruction = Some (js_or_str (SYSTEM_INSTRUCTION env) default_instruction),
           greeting = Some ''Hello! Thank you for calling. How can I help you today?'',
           is_active = True,
           max_concurrent_calls = Some 10,
           call_direction = Some ''inbound'',
           timezone = Some ''America/New_York'',
           business_hours_start = Some ''09:00'',
           business_hours_end = Some ''17:00'',
           business_days = Some [1, 2, 3, 4, 5],
           twilio_phone_number = None \<rparr> \<rparr>"

text \<open>
  The object literal of \<^verbatim>\<open>enhanceAgentWithDefaults\<close>: the spread copies every field,
  then the five routing fields are written.
\<close>

definition enhanced :: "agent \<Rightarrow> agent" where
  "enhanced a =
     a \<lparr> call_direction := Some (js_or_str (call_direction a) ''inbound''),
         timezone := Some (js_or_str (timezone a) ''America/New_York''),
         business_hours_start := Some (js_or_str (business_hours_start a) ''09:00''),
         business_hours_end := Some (js_or_str (business_hours_end a) ''17:00''),
         business_days := Some (js_or_arr (business_days a) [1, 2, 3, 4, 5]) \<rparr>"

definition enhanceAgentWithDefaults :: "agent option \<Rightarrow> agent option" where
  "enhanceAgentWithDefaults a = (case a of None \<Rightarrow> None | Some x \<Rightarrow> Some (enhanced x))"

text \<open>
  The same function over an object store, where an agent is a reference: the store is the
  list of allocated objects, a reference is an index below its length, and an object
  literal allocates at the end. The function writes to no existing object.
\<close>

definition enhanceAgentWithDefaults_heap ::
    "agent list \<Rightarrow> nat option \<Rightarrow> agent list \<times> nat option" where
  "enhanceAgentWithDefaults_heap h r =
     (case r of None \<Rightarrow> (h, None)
      | Some p \<Rightarrow> (h @ [enhanced (h ! p)], Some (length h)))"

definition isAgentAvailable :: "agent \<Rightarrow> int \<Rightarrow> string \<Rightarrow> bool" where
  "isAgentAvailable a currentDay currentTime =
     (let businessDays = js_or_arr (business_days a) [1, 2, 3, 4, 5] in
      if currentDay \<notin> set businessDays then False
      else
        let startTime = js_or_str (business_hours_start a) ''09:00'';
            endTime = js_or_str (business_hours_end a) ''17:00''
        in currentTime \<ge> startTime \<and> currentTime \<le> endTime)"

definition accepts :: "string \<Rightarrow> agent \<Rightarrow> bool" where
  "accepts callDirection a =
     (call_direction a = Some callDirection \<or> call_direction a = Some ''both'')"

text \<open>
  \<^verbatim>\<open>phoneData?.ai_agents\<close> is the joined agent of the row, if both exist, and
  \<^verbatim>\<open>phoneData?.ai_agents?.is_active\<close> is truthy when that agent exists and is active.
\<close>

definition joined_agent :: "phone_row response \<Rightarrow> agent option" where
  "joined_agent r = Option.bind (data r) ai_agents"

definition truthy_active :: "agent option \<Rightarrow> bool" where
  "truthy_active a = (case a of None \<Rightarrow> False | Some ag \<Rightarrow> is_active ag)"

definition getAgentByPhoneNumber :: "world \<Rightarrow> string \<Rightarrow> exn + agent option" where
  "getAgentByPhoneNumber w phoneNumber =
     try_catch
       (bindE (phone_numbers_single w phoneNumber) (\<lambda>phoneResp.
          if error phoneResp = None \<and> truthy_active (joined_agent phoneResp)
          then Inr (enhanceAgentWithDefaults (joined_agent phoneResp))
          else
            bindE (ai_agents_by_twilio_single w phoneNumber) (\<lambda>agentResp.
              if error agentResp = None \<and> data agentResp \<noteq> None
              then Inr (enhanceAgentWithDefaults (data agentResp))
              else Inr None)))
       (\<lambda>e. Inr None)"

definition getAgentByBusinessHours :: "world \<Rightarrow> string \<Rightarrow> exn + agent option" where
  "getAgentByBusinessHours w callDirection =
     try_catch
       (let currentDay = now_getDay w; currentTime = now_HHMM w in
        bindE (ai_agents_active_hours w) (\<lambda>resp.
          if error resp \<noteq> None then Inr None
          else case data resp of
            None \<Rightarrow> Inl TypeError
          | Some agents \<Rightarrow>
              (let enhancedAgents = filter (accepts callDirection) (map enhanced agents) in
               case find (\<lambda>a. isAgentAvailable a currentDay currentTime) enhancedAgents of
                 Some a \<Rightarrow> Inr (Some a)
               | None \<Rightarrow>
                   (case find (\<lambda>a. agent_type a = Some ''after_hours'') enhancedAgents of
                      Some a \<Rightarrow> Inr (Some a)
                    | None \<Rightarrow> Inr None))))
       (\<lambda>e. Inr None)"

definition getActiveInboundAgent :: "world \<Rightarrow> exn + agent option" where
  "getActiveInboundAgent w =
     try_catch
       (bindE (ai_agents_active_inbound w) (\<lambda>resp.
          if error resp \<noteq> None then Inr None
          else case data resp of
            None \<Rightarrow> Inl TypeError
          | Some agents \<Rightarrow>
              (case find (\<lambda>a. call_direction a = Some ''inbound'' \<or> call_direction a = Some ''both'')
                      (map enhanced agents) of
                 Some a \<Rightarrow> Inr (Some a)
               | None \<Rightarrow> Inr None)))
       (\<lambda>e. Inr None)"

definition getActiveOutboundAgent :: "world \<Rightarrow> exn + agent option" where
  "getActiveOutboundAgent w =
     try_catch
       (bindE (ai_agents_active_outbound w) (\<lambda>resp.
          if error resp \<noteq> None then Inr None
          else case data resp of
            None \<Rightarrow> Inl TypeError
          | Some agents \<Rightarrow>
              (case find (\<lambda>a. call_direction a = Some ''outbound'' \<or> call_direction a = Some ''both'')
                      (map enhanced agents) of
                 Some a \<Rightarrow> Inr (Some a)
               | None \<Rightarrow> Inr None)))
       (\<lambda>e. Inr None)"

definition getAgentById :: "world \<Rightarrow> string \<Rightarrow> exn + agent option" where
  "getAgentById w agentId =
     try_catch
       (bindE (ai_agents_by_id_single w agentId) (\<lambda>resp.
          if error resp = None \<and> data resp \<noteq> None
          then Inr (enhanceAgentWithDefaults (data resp))
          else Inr None))
       (\<lambda>e. Inr None)"

definition routeIncomingCall ::
    "AgentRoutingService \<Rightarrow> world \<Rightarrow> call_data option \<Rightarrow> exn + agent" where
  "routeIncomingCall this w callData =
     try_catch
       (case callData of
          None \<Rightarrow> Inl TypeError
        | Some cd \<Rightarrow>
            (let calledNumber = To cd in
             bindE (getAgentByPhoneNumber w calledNumber) (\<lambda>agent1.
             bindE (if agent1 = None then getAgentByBusinessHours w ''inbound'' else Inr agent1)
               (\<lambda>agent2.
             bindE (if agent2 = None then getActiveInboundAgent w else Inr agent2)
               (\<lambda>agent3.
             Inr (case agent3 of None \<Rightarrow> defaultAgent this | Some a \<Rightarrow> a))))))
       (\<lambda>e. Inr (defaultAgent this))"

definition routeOutboundCall ::
    "AgentRoutingService \<Rightarrow> world \<Rightarrow> string option \<Rightarrow> call_data option \<Rightarrow> exn + agent" where
  "routeOutboundCall this w agentId callData =
     try_catch
       (bindE
          (case agentId of
             None \<Rightarrow> Inr None
           | Some i \<Rightarrow>
               if i = [] then Inr None
               else bindE (getAgentById w i) (\<lambda>byId.
                 case byId of
                   None \<Rightarrow> Inr None
                 | Some a \<Rightarrow>
                     if is_active a \<and>
                        (call_direction a = Some ''outbound'' \<or> call_direction a = Some ''both'')
                     then Inr (Some a) else Inr None))
          (\<lambda>returned.
             case returned of
               Some a \<Rightarrow> Inr a
             | None \<Rightarrow>
                 bindE (getActiveOutboundAgent w) (\<lambda>general.
                   Inr (case general of None \<Rightarrow> defaultAgent this | Some a \<Rightarrow> a))))
       (\<lambda>e. Inr (defaultAgent this))"

definition canAgentHandleCall :: "world \<Rightarrow> string \<Rightarrow> exn + bool" where
  "canAgentHandleCall w agentId =
     try_catch
       (bindE (ai_agents_limit_single w agentId) (\<lambda>agentResp.
          if error agentResp \<noteq> None \<or> data agentResp = None then Inr False
          else
            bindE (call_logs_in_progress w agentId) (\<lambda>callsResp.
              if error callsResp \<noteq> None then Inr True
              else
                (let currentCalls =
                       (case data callsResp of None \<Rightarrow> 0 | Some rows \<Rightarrow> int (length rows));
                     maxCalls =
                       js_or_num (Option.bind (data agentResp) limit_max_concurrent_calls) 5
                 in Inr (currentCalls < maxCalls)))))
       (\<lambda>e. Inr True)"

section \<open>The inbound fallback chain\<close>

text \<open>
  What each step of \<^verbatim>\<open>routeIncomingCall\<close> yields, written without exceptions or
  sequencing. A lookup delivers rows only when it neither rejects nor reports an error.
\<close>

definition lookup_ok :: "exn + 'a response \<Rightarrow> 'a option" where
  "lookup_ok q = (case q of Inl e \<Rightarrow> None | Inr r \<Rightarrow> if error r = None then data r else None)"

definition rows_of :: "exn + 'a list response \<Rightarrow> 'a list" where
  "rows_of q = (case lookup_ok q of None \<Rightarrow> [] | Some xs \<Rightarrow> xs)"

fun first_success :: "'a option list \<Rightarrow> 'a option" where
  "first_success [] = None"
| "first_success (None # steps) = first_success steps"
| "first_success (Some a # steps) = Some a"

text \<open>
  Step 1a: the joined agent of the called number's assignment row, when the lookup
  delivers the row without error and that agent is active.
\<close>

definition spec_assignment :: "world \<Rightarrow> string \<Rightarrow> agent option" where
  "spec_assignment w n =
     (case Option.bind (lookup_ok (phone_numbers_single w n)) ai_agents of
        None \<Rightarrow> None
      | Some ag \<Rightarrow> if is_active ag then Some (enhanced ag) else None)"

text \<open>
  Step 1b: the agent that the lookup by primary number delivers without error. It is
  consulted after the assignment table; a rejected assignment lookup ends step 1.
\<close>

definition spec_primary_number :: "world \<Rightarrow> string \<Rightarrow> agent option" where
  "spec_primary_number w n =
     (case phone_numbers_single w n of
        Inl e \<Rightarrow> None
      | Inr r \<Rightarrow> map_option enhanced (lookup_ok (ai_agents_by_twilio_single w n)))"

text \<open>Step 2: the newest active inbound-or-both agent that is open now.\<close>

definition spec_open_now :: "world \<Rightarrow> agent option" where
  "spec_open_now w =
     find (\<lambda>a. accepts ''inbound'' a \<and> isAgentAvailable a (now_getDay w) (now_HHMM w))
       (map enhanced (rows_of (ai_agents_active_hours w)))"

text \<open>Step 2, secondary: the newest active inbound-or-both agent of type after_hours.\<close>

definition spec_after_hours :: "world \<Rightarrow> agent option" where
  "spec_after_hours w =
     find (\<lambda>a. accepts ''inbound'' a \<and> agent_type a = Some ''after_hours'')
       (map enhanced (rows_of (ai_agents_active_hours w)))"

text \<open>Step 3: the newest active inbound-or-both agent, whatever its hours.\<close>

definition spec_any_inbound :: "world \<Rightarrow> agent option" where
  "spec_any_inbound w =
     find (accepts ''inbound'') (map enhanced (rows_of (ai_agents_active_inbound w)))"






text \<open>The availability fields a caller reads from a returned agent.\<close>

definition availability_fields_present :: "agent \<Rightarrow> bool" where
  "availability_fields_present a =
     (call_direction a \<noteq> None \<and> timezone a \<noteq> None \<and> business_hours_start a \<noteq> None \<and>
      business_hours_end a \<noteq> None \<and> business_days a \<noteq> None)"

text \<open>A lookup fails when it rejects or reports an error.\<close>

definition lookup_failed :: "exn + 'a response \<Rightarrow> bool" where
  "lookup_failed q = (case q of Inl e \<Rightarrow> True | Inr r \<Rightarrow> error r \<noteq> None)"

section \<open>Concrete stores and agents\<close>

definition found :: "'a \<Rightarrow> 'a response" where
  "found x = \<lparr> data = Some x, error = None \<rparr>"

definition not_found :: "'a response" where
  "not_found = \<lparr> data = None, error = Some ''PGRST116'' \<rparr>"

definition bare_agent :: "string \<Rightarrow> string \<Rightarrow> agent" where
  "bare_agent i ty =
     \<lparr> agent_id = i, name = i, agent_type = Some ty, voice_name = None,
       language_code = None, system_instruction = None, greeting = None,
       is_active = True, max_concurrent_calls = None, call_direction = None,
       timezone = None, business_hours_start = None, business_hours_end = None,
       business_days = None, twilio_phone_number = None \<rparr>"

definition ex_day_agent :: agent where
  "ex_day_agent = bare_agent ''a1'' ''general''"

definition ex_night_agent :: agent where
  "ex_night_agent = bare_agent ''a2'' ''after_hours''"

definition ex_night_outbound :: agent where
  "ex_night_outbound = (bare_agent ''a3'' ''after_hours'') \<lparr> call_direction := Some ''outbound'' \<rparr>"

definition ex_blank_timezone :: agent where
  "ex_blank_timezone = (bare_agent ''a4'' ''general'') \<lparr> timezone := Some [] \<rparr>"

definition ex_inactive :: agent where
  "ex_inactive = (bare_agent ''a5'' ''sales'') \<lparr> is_active := False \<rparr>"

definition ex_outbound :: agent where
  "ex_outbound = (bare_agent ''a6'' ''sales'') \<lparr> call_direction := Some ''outbound'' \<rparr>"

definition ex_inbound :: agent where
  "ex_inbound = (bare_agent ''a7'' ''support'') \<lparr> call_direction := Some ''inbound'' \<rparr>"

definition ex_service :: AgentRoutingService where
  "ex_service =
     constructor \<lparr> VOICE_NAME = None, LANGUAGE_CODE = None, SYSTEM_INSTRUCTION = None \<rparr>"

definition ex_call :: call_data where
  "ex_call = \<lparr> From = ''+15550001'', To = ''+15550002'', CallSid = ''CA1'' \<rparr>"

text \<open>A Sunday evening on which every lookup fails, some by rejecting, some with an error.\<close>

definition world_down :: world where
  "world_down =
     \<lparr> phone_numbers_single = (\<lambda>n. Inr not_found),
       ai_agents_by_twilio_single = (\<lambda>n. Inl Rejected),
       ai_agents_active_hours = Inr not_found,
       ai_agents_active_inbound = Inl Rejected,
       ai_agents_active_outbound = Inr not_found,
       ai_agents_by_id_single = (\<lambda>i. Inr not_found),
       ai_agents_limit_single = (\<lambda>i. Inr not_found),
       call_logs_in_progress = (\<lambda>i. Inl Rejected),
       now_getDay = 0,
       now_HHMM = ''20:30'' \<rparr>"

text \<open>Two active agents, none assigned to the number: a day agent and an after-hours agent.\<close>

definition world_sunday :: world where
  "world_sunday =
     world_down \<lparr> ai_agents_active_hours := Inr (found [ex_day_agent, ex_night_agent]),
                  ai_agents_active_inbound := Inr (found [ex_day_agent, ex_night_agent]) \<rparr>"

text \<open>The only active agent is an after-hours agent that takes outbound calls only.\<close>

definition world_night_outbound :: world where
  "world_night_outbound =
     world_down \<lparr> ai_agents_active_hours := Inr (found [ex_night_outbound]),
                  ai_agents_active_inbound := Inr (found [ex_night_outbound]) \<rparr>"

text \<open>The called number has an assignment row, joined to an inactive agent.\<close>

definition world_assigned_inactive :: world where
  "world_assigned_inactive =
     world_down \<lparr> phone_numbers_single :=
       (\<lambda>n. Inr (found \<lparr> phone_number = n, ai_agents = Some ex_inactive \<rparr>)) \<rparr>"

text \<open>The called number is assigned to an active outbound-only agent; other agents exist.\<close>

definition world_assigned :: world where
  "world_assigned =
     world_sunday \<lparr> phone_numbers_single :=
       (\<lambda>n. Inr (found \<lparr> phone_number = n, ai_agents = Some ex_outbound \<rparr>)) \<rparr>"

text \<open>Agent a7 exists, is active and inbound; an outbound agent exists too.\<close>

definition world_outbound :: world where
  "world_outbound =
     world_down \<lparr> ai_agents_by_id_single := (\<lambda>i. Inr (found ex_inbound)),
                  ai_agents_active_outbound := Inr (found [ex_inbound, ex_outbound]) \<rparr>"

text \<open>The limit is fetched (it is 0), and the count query answers two calls or an error.\<close>

definition world_two_calls :: world where
  "world_two_calls =
     world_down \<lparr> ai_agents_limit_single :=
                    (\<lambda>i. Inr (found \<lparr> limit_max_concurrent_calls = Some 0 \<rparr>)),
                  call_logs_in_progress := (\<lambda>i. Inr (found [''c1'', ''c2''])) \<rparr>"

definition world_five_calls :: world where
  "world_five_calls =
     world_down \<lparr> ai_agents_limit_single :=
                    (\<lambda>i. Inr (found \<lparr> limit_max_concurrent_calls = None \<rparr>)),
                  call_logs_in_progress :=
                    (\<lambda>i. Inr (found [''c1'', ''c2'', ''c3'', ''c4'', ''c5''])) \<rparr>"

definition world_count_error :: world where
  "world_count_error =
     world_two_calls \<lparr> call_logs_in_progress := (\<lambda>i. Inr not_found) \<rparr>"

text \<open>The limit fetch itself rejects.\<close>

definition world_limit_rejects :: world where
  "world_limit_rejects = world_down \<lparr> ai_agents_limit_single := (\<lambda>i. Inl Rejected) \<rparr>"

section \<open>Evaluation and helper lemmas\<close>

lemmas js_defs = js_or_str_def js_or_arr_def js_or_num_def

lemmas spec_defs =
  spec_assignment_def spec_primary_number_def spec_open_now_def spec_after_hours_def
  spec_any_inbound_def lookup_ok_def rows_of_def accepts_def isAgentAvailable_def enhanced_def

lemma find_filter: "find P (filter Q xs) = find (\<lambda>x. Q x \<and> P x) xs"
  by (induction xs) auto

lemma find_Some_in_set: "find P xs = Some x \<Longrightarrow> x \<in> set xs \<and> P x"
  by (induction xs) (auto split: if_splits)

lemma accepts_fun:
  "accepts d = (\<lambda>a. call_direction a = Some d \<or> call_direction a = Some ''both'')"
  by (simp add: fun_eq_iff accepts_def)

lemma getAgentByPhoneNumber_chain:
  "getAgentByPhoneNumber w n = Inr (first_success [spec_assignment w n, spec_primary_number w n])"
  by (cases "phone_numbers_single w n"; cases "ai_agents_by_twilio_single w n")
     (auto simp: getAgentByPhoneNumber_def spec_assignment_def spec_primary_number_def
        try_catch_def bindE_def lookup_ok_def joined_agent_def truthy_active_def
        enhanceAgentWithDefaults_def
        split: option.splits Option.bind_splits)

lemma getAgentByBusinessHours_chain:
  "getAgentByBusinessHours w ''inbound'' = Inr (first_success [spec_open_now w, spec_after_hours w])"
  by (cases "ai_agents_active_hours w")
     (auto simp: getAgentByBusinessHours_def spec_open_now_def spec_after_hours_def
        try_catch_def bindE_def lookup_ok_def rows_of_def find_filter Let_def
        split: option.splits)

lemma getActiveInboundAgent_chain:
  "getActiveInboundAgent w = Inr (spec_any_inbound w)"
  by (cases "ai_agents_active_inbound w")
     (auto simp: getActiveInboundAgent_def spec_any_inbound_def accepts_fun
        try_catch_def bindE_def lookup_ok_def rows_of_def
        split: option.splits)

lemma routeIncomingCall_steps:
  "routeIncomingCall this w (Some cd) =
     Inr (case first_success
                 [first_success [spec_assignment w (To cd), spec_primary_number w (To cd)],
                  first_success [spec_open_now w, spec_after_hours w],
                  spec_any_inbound w] of
            None \<Rightarrow> defaultAgent this | Some a \<Rightarrow> a)"
  by (simp add: routeIncomingCall_def try_catch_def bindE_def Let_def
        getAgentByPhoneNumber_chain getAgentByBusinessHours_chain getActiveInboundAgent_chain
        split: option.splits)

lemma getActiveOutboundAgent_find:
  "getActiveOutboundAgent w =
     Inr (find (accepts ''outbound'') (map enhanced (rows_of (ai_agents_active_outbound w))))"
  by (cases "ai_agents_active_outbound w")
     (auto simp: getActiveOutboundAgent_def accepts_fun try_catch_def bindE_def lookup_ok_def
        rows_of_def split: option.splits)

lemma getAgentById_lookup:
  "getAgentById w i = Inr (map_option enhanced (lookup_ok (ai_agents_by_id_single w i)))"
  by (cases "ai_agents_by_id_single w i")
     (auto simp: getAgentById_def try_catch_def bindE_def lookup_ok_def
        enhanceAgentWithDefaults_def split: option.splits)

lemma enhanced_fields_present: "availability_fields_present (enhanced a)"
  by (simp add: availability_fields_present_def enhanced_def)

lemma default_fields_present: "availability_fields_present (defaultAgent (constructor env))"
  by (simp add: availability_fields_present_def constructor_def)

lemma find_map_enhanced:
  "find P (map enhanced xs) = Some a \<Longrightarrow> availability_fields_present a"
  by (auto dest!: find_Some_in_set simp: enhanced_fields_present)

lemma spec_steps_present:
  "spec_assignment w n = Some a \<Longrightarrow> availability_fields_present a"
  "spec_primary_number w n = Some a \<Longrightarrow> availability_fields_present a"
  "spec_open_now w = Some a \<Longrightarrow> availability_fields_present a"
  "spec_after_hours w = Some a \<Longrightarrow> availability_fields_present a"
  "spec_any_inbound w = Some a \<Longrightarrow> availability_fields_present a"
  by (auto simp: spec_assignment_def spec_primary_number_def spec_open_now_def
        spec_after_hours_def spec_any_inbound_def enhanced_fields_present
        dest: find_map_enhanced split: option.splits if_splits sum.splits)

lemma routeIncomingCall_null: "routeIncomingCall this w None = Inr (defaultAgent this)"
  by (simp add: routeIncomingCall_def try_catch_def)

lemma lookup_failed_ok: "lookup_failed q \<Longrightarrow> lookup_ok q = None"
  by (auto simp: lookup_failed_def lookup_ok_def split: sum.splits)

lemma routeOutboundCall_total:
  "\<exists>a. routeOutboundCall this w i cd = Inr a \<and>
       (a = defaultAgent this \<or> (\<exists>b. a = enhanced b))"
  by (auto simp: routeOutboundCall_def try_catch_def bindE_def getAgentById_lookup
        getActiveOutboundAgent_find
        dest!: find_Some_in_set split: option.splits)

lemma routeIncomingCall_total:
  "\<exists>a. routeIncomingCall this w cd = Inr a"
  by (cases cd) (simp_all add: routeIncomingCall_null routeIncomingCall_steps)

lemma find_unique_after_hours:
  assumes "filter P xs = [x]" and "Q (f x)" and "\<And>a. P' (f a) = P a"
  shows "find (\<lambda>a. Q a \<and> P' a) (map f xs) = Some (f x)"
  using assms(1)
proof (induction xs)
  case Nil
  then show ?case by simp
next
  case (Cons y ys)
  show ?case
  proof (cases "P y")
    case True
    with Cons.prems have "y = x" by simp
    with True assms(2,3) show ?thesis by simp
  next
    case False
    with Cons.prems have "filter P ys = [x]" by simp
    with Cons.IH False assms(3) show ?thesis by simp
  qed
qed

lemma first_success_single: "first_success [x] = x"
  by (cases x) simp_all

lemma find_none: "(\<And>a. a \<in> set xs \<Longrightarrow> \<not> P a) \<Longrightarrow> find P xs = None"
  by (induction xs) auto

section \<open>The claims\<close>




text \<open>
  Claim C2, as amended. \<^verbatim>\<open>canAgentHandleCall\<close> fails open for the in-progress count query
  and for rejected lookups only: when the concurrency-limit fetch rejects it returns true;
  when that fetch reports an error or delivers no agent it returns false; when the limit
  is fetched and the count query rejects or reports an error it returns true.
\<close>

theorem canAgentHandleCall_fail_open_on_count:
  "(ai_agents_limit_single w i = Inl e \<longrightarrow> canAgentHandleCall w i = Inr True) \<and>
   (ai_agents_limit_single w i = Inr r \<and> (error r \<noteq> None \<or> data r = None) \<longrightarrow>
      canAgentHandleCall w i = Inr False) \<and>
   (ai_agents_limit_single w i = Inr r \<and> error r = None \<and> data r \<noteq> None \<and>
    lookup_failed (call_logs_in_progress w i) \<longrightarrow>
      canAgentHandleCall w i = Inr True)"
  by (auto simp: canAgentHandleCall_def try_catch_def bindE_def lookup_failed_def
        split: sum.splits)

theorem canAgentHandleCall_fail_open_on_count_witness:
  "canAgentHandleCall world_limit_rejects ''a1'' = Inr True \<and>
   canAgentHandleCall world_sunday ''a1'' = Inr False \<and>
   canAgentHandleCall world_count_error ''a1'' = Inr True"
proof -
  have 1: "ai_agents_limit_single world_limit_rejects ''a1'' = Inl Rejected"
    by (simp add: world_limit_rejects_def world_sunday_def world_count_error_def world_two_calls_def world_down_def found_def not_found_def)
  have 2: "ai_agents_limit_single world_sunday ''a1'' = Inr not_found \<and>
           (error (not_found :: limit_row response) \<noteq> None \<or>
            data (not_found :: limit_row response) = None)"
    by (simp add: world_limit_rejects_def world_sunday_def world_count_error_def world_two_calls_def world_down_def found_def not_found_def)
  have 3: "ai_agents_limit_single world_count_error ''a1'' =
             Inr (found \<lparr> limit_max_concurrent_calls = Some 0 \<rparr>) \<and>
           error (found \<lparr> limit_max_concurrent_calls = Some 0 \<rparr>) = None \<and>
           data (found \<lparr> limit_max_concurrent_calls = Some 0 \<rparr>) \<noteq> None \<and>
           lookup_failed (call_logs_in_progress world_count_error ''a1'')"
    by (simp add: world_limit_rejects_def world_sunday_def world_count_error_def world_two_calls_def world_down_def found_def not_found_def lookup_failed_def)
  show ?thesis
    using canAgentHandleCall_fail_open_on_count [of world_limit_rejects "''a1''" Rejected] 1
      canAgentHandleCall_fail_open_on_count [of world_sunday "''a1''" _ not_found] 2
      canAgentHandleCall_fail_open_on_count [of world_count_error "''a1''" _
        "found \<lparr> limit_max_concurrent_calls = Some 0 \<rparr>"] 3
    by blast
qed

text \<open>
  The limit fetch reports an error (no row for the id): the call is refused, not permitted.
\<close>

theorem canAgentHandleCall_limit_error_counterexample:
  "lookup_failed (ai_agents_limit_single world_down ''a1'') \<and>
   canAgentHandleCall world_down ''a1'' = Inr False"
  by (simp add: canAgentHandleCall_def try_catch_def bindE_def lookup_failed_def world_limit_rejects_def world_sunday_def world_count_error_def world_two_calls_def world_down_def found_def not_found_def)

text \<open>
  Claim C3. For every enhanced agent, its business days, start and end are present, and
  for every weekday and time \<^verbatim>\<open>isAgentAvailable\<close> is true if and only if the weekday is a
  member of the business days and start \<open>\<le>\<close> time \<open>\<le>\<close> end in the lexicographic order of
  strings, both ends included.
\<close>

theorem isAgentAvailable_iff_in_window:
  assumes "enhanceAgentWithDefaults (Some a0) = Some a"
  shows "\<exists>ds s e.
           business_days a = Some ds \<and> business_hours_start a = Some s \<and>
           business_hours_end a = Some e \<and>
           (\<forall>d t. isAgentAvailable a d t = (d \<in> set ds \<and> s \<le> t \<and> t \<le> e))"
proof -
  from assms have a: "a = enhanced a0"
    by (simp add: enhanceAgentWithDefaults_def)
  have "js_or_str (Some (js_or_str x d)) d = js_or_str x d" for x d
    by (simp add: js_or_str_def split: option.splits)
  then show ?thesis
    unfolding a by (simp add: enhanced_def isAgentAvailable_def js_or_arr_def)
qed

theorem isAgentAvailable_iff_in_window_witness:
  "enhanceAgentWithDefaults (Some ex_day_agent) = Some (enhanced ex_day_agent) \<and>
   business_days (enhanced ex_day_agent) = Some [1, 2, 3, 4, 5] \<and>
   business_hours_start (enhanced ex_day_agent) = Some ''09:00'' \<and>
   business_hours_end (enhanced ex_day_agent) = Some ''17:00'' \<and>
   \<not> isAgentAvailable (enhanced ex_day_agent) 1 ''08:59'' \<and>
   isAgentAvailable (enhanced ex_day_agent) 1 ''09:00'' \<and>
   isAgentAvailable (enhanced ex_day_agent) 1 ''17:00'' \<and>
   \<not> isAgentAvailable (enhanced ex_day_agent) 1 ''17:01'' \<and>
   \<not> isAgentAvailable (enhanced ex_day_agent) 0 ''12:00''"
proof -
  have h: "enhanceAgentWithDefaults (Some ex_day_agent) = Some (enhanced ex_day_agent)"
    by (simp add: enhanceAgentWithDefaults_def)
  have f: "business_days (enhanced ex_day_agent) = Some [1, 2, 3, 4, 5]"
    "business_hours_start (enhanced ex_day_agent) = Some ''09:00''"
    "business_hours_end (enhanced ex_day_agent) = Some ''17:00''"
    by (simp_all add: enhanced_def ex_day_agent_def bare_agent_def js_defs)
  from isAgentAvailable_iff_in_window [OF h] f
  have "\<forall>d t. isAgentAvailable (enhanced ex_day_agent) d t =
          (d \<in> set [1, 2, 3, 4, 5] \<and> ''09:00'' \<le> t \<and> t \<le> ''17:00'')"
    by simp
  then show ?thesis using h f by simp
qed

text \<open>
  Claim C4, as amended. \<^verbatim>\<open>enhanceAgentWithDefaults\<close> maps null to null. For every agent it
  returns a copy in which call direction, timezone and business-hours start and end are
  filled with their defaults exactly when they are missing, null or the empty string, the
  business days exactly when they are missing or null, and every other field is that of
  the input. Over an object store, the result is a newly allocated object and every
  object allocated before, the input among them, is unchanged.
\<close>

theorem enhanceAgentWithDefaults_fills_falsy:
  "enhanceAgentWithDefaults None = None \<and>
   (\<exists>b. enhanceAgentWithDefaults (Some a) = Some b \<and>
      call_direction b =
        (if call_direction a = None \<or> call_direction a = Some [] then Some ''inbound''
         else call_direction a) \<and>
      timezone b =
        (if timezone a = None \<or> timezone a = Some [] then Some ''America/New_York''
         else timezone a) \<and>
      business_hours_start b =
        (if business_hours_start a = None \<or> business_hours_start a = Some [] then Some ''09:00''
         else business_hours_start a) \<and>
      business_hours_end b =
        (if business_hours_end a = None \<or> business_hours_end a = Some [] then Some ''17:00''
         else business_hours_end a) \<and>
      business_days b =
        (if business_days a = None then Some [1, 2, 3, 4, 5] else business_days a) \<and>
      agent_id b = agent_id a \<and> name b = name a \<and> agent_type b = agent_type a \<and>
      voice_name b = voice_name a \<and> language_code b = language_code a \<and>
      system_instruction b = system_instruction a \<and> greeting b = greeting a \<and>
      is_active b = is_active a \<and> max_concurrent_calls b = max_concurrent_calls a \<and>
      twilio_phone_number b = twilio_phone_number a) \<and>
   enhanceAgentWithDefaults_heap h None = (h, None) \<and>
   (p < length h \<longrightarrow>
      (\<exists>h'. enhanceAgentWithDefaults_heap h (Some p) = (h', Some (length h)) \<and>
         length h' = Suc (length h) \<and>
         (\<forall>q < length h. h' ! q = h ! q) \<and>
         Some (h' ! length h) = enhanceAgentWithDefaults (Some (h ! p))))"
  by (auto simp: enhanceAgentWithDefaults_def enhanceAgentWithDefaults_heap_def enhanced_def
        js_or_str_def js_or_arr_def nth_append split: option.splits)

theorem enhanceAgentWithDefaults_fills_falsy_witness:
  "enhanceAgentWithDefaults (Some ex_outbound) =
     Some (ex_outbound \<lparr> timezone := Some ''America/New_York'',
                         business_hours_start := Some ''09:00'',
                         business_hours_end := Some ''17:00'',
                         business_days := Some [1, 2, 3, 4, 5] \<rparr>) \<and>
   enhanceAgentWithDefaults_heap [ex_day_agent, ex_outbound] (Some 1) =
     ([ex_day_agent, ex_outbound, enhanced ex_outbound], Some 2)"
proof -
  have p: "(1::nat) < length [ex_day_agent, ex_outbound]" by simp
  from enhanceAgentWithDefaults_fills_falsy [of ex_outbound "[ex_day_agent, ex_outbound]" 1] p
  obtain b h' where
    b: "enhanceAgentWithDefaults (Some ex_outbound) = Some b"
      "call_direction b = Some ''outbound''" and
    h': "enhanceAgentWithDefaults_heap [ex_day_agent, ex_outbound] (Some 1) = (h', Some 2)"
    by (auto simp: ex_outbound_def ex_blank_timezone_def bare_agent_def)
  show ?thesis
    using b h'
    by (auto simp: enhanceAgentWithDefaults_def enhanceAgentWithDefaults_heap_def enhanced_def
          ex_outbound_def ex_blank_timezone_def bare_agent_def js_defs)
qed

text \<open>
  A timezone that is present and is the empty string is overwritten by the default.
\<close>

theorem enhanceAgentWithDefaults_present_counterexample:
  "timezone ex_blank_timezone \<noteq> None \<and>
   map_option timezone (enhanceAgentWithDefaults (Some ex_blank_timezone)) \<noteq>
     Some (timezone ex_blank_timezone)"
  by (simp add: enhanceAgentWithDefaults_def enhanced_def ex_outbound_def ex_blank_timezone_def bare_agent_def js_defs)

text \<open>
  Claim C5. \<^verbatim>\<open>routeIncomingCall\<close> always returns an agent and never an exception. A null
  call data, whose destructuring throws, yields the Default Agent. When all four lookups
  fail, by rejecting or by reporting an error, the result is exactly the Default Agent.
  A failed lookup makes its step yield null, so that the chain goes on with the next
  step: after a fruitless step 1 the result is that of steps 2 to 4, and after fruitless
  steps 1 and 2 that of steps 3 and 4.
\<close>

theorem routeIncomingCall_never_throws:
  "(\<exists>a. routeIncomingCall this w cd = Inr a) \<and>
   routeIncomingCall this w None = Inr (defaultAgent this) \<and>
   (lookup_failed (phone_numbers_single w (To c)) \<and>
    lookup_failed (ai_agents_by_twilio_single w (To c)) \<and>
    lookup_failed (ai_agents_active_hours w) \<and>
    lookup_failed (ai_agents_active_inbound w) \<longrightarrow>
      routeIncomingCall this w (Some c) = Inr (defaultAgent this)) \<and>
   (lookup_failed (phone_numbers_single w n) \<and> lookup_failed (ai_agents_by_twilio_single w n) \<longrightarrow>
      getAgentByPhoneNumber w n = Inr None) \<and>
   (lookup_failed (ai_agents_active_hours w) \<longrightarrow> getAgentByBusinessHours w ''inbound'' = Inr None) \<and>
   (lookup_failed (ai_agents_active_inbound w) \<longrightarrow> getActiveInboundAgent w = Inr None) \<and>
   (getAgentByPhoneNumber w (To c) = Inr None \<longrightarrow>
      routeIncomingCall this w (Some c) =
        Inr (case first_success [spec_open_now w, spec_after_hours w, spec_any_inbound w] of
               None \<Rightarrow> defaultAgent this | Some a \<Rightarrow> a)) \<and>
   (getAgentByPhoneNumber w (To c) = Inr None \<and>
    getAgentByBusinessHours w ''inbound'' = Inr None \<longrightarrow>
      routeIncomingCall this w (Some c) =
        Inr (case spec_any_inbound w of None \<Rightarrow> defaultAgent this | Some a \<Rightarrow> a))"
proof -
  have step1: "getAgentByPhoneNumber w m = Inr None"
    if "lookup_failed (phone_numbers_single w m)" "lookup_failed (ai_agents_by_twilio_single w m)"
    for m
    using that
    by (auto simp: getAgentByPhoneNumber_chain spec_assignment_def spec_primary_number_def
          lookup_failed_ok split: sum.splits)
  have step2: "getAgentByBusinessHours w ''inbound'' = Inr None"
    if "lookup_failed (ai_agents_active_hours w)"
    using that
    by (simp add: getAgentByBusinessHours_chain spec_open_now_def spec_after_hours_def
          rows_of_def lookup_failed_ok)
  have step3: "getActiveInboundAgent w = Inr None"
    if "lookup_failed (ai_agents_active_inbound w)"
    using that
    by (simp add: getActiveInboundAgent_chain spec_any_inbound_def rows_of_def lookup_failed_ok)
  have rest: "routeIncomingCall this w (Some c) =
        Inr (case first_success [spec_open_now w, spec_after_hours w, spec_any_inbound w] of
               None \<Rightarrow> defaultAgent this | Some a \<Rightarrow> a)"
    if "getAgentByPhoneNumber w (To c) = Inr None"
    using that
    by (cases "spec_open_now w"; cases "spec_after_hours w")
       (simp_all add: routeIncomingCall_def try_catch_def bindE_def Let_def
          getAgentByBusinessHours_chain getActiveInboundAgent_chain first_success_single)
  have last: "routeIncomingCall this w (Some c) =
        Inr (case spec_any_inbound w of None \<Rightarrow> defaultAgent this | Some a \<Rightarrow> a)"
    if "getAgentByPhoneNumber w (To c) = Inr None" "getAgentByBusinessHours w ''inbound'' = Inr None"
    using that
    by (simp add: routeIncomingCall_def try_catch_def bindE_def Let_def
          getActiveInboundAgent_chain)
  have down: "routeIncomingCall this w (Some c) = Inr (defaultAgent this)"
    if "lookup_failed (phone_numbers_single w (To c))"
      "lookup_failed (ai_agents_by_twilio_single w (To c))"
      "lookup_failed (ai_agents_active_hours w)"
      "lookup_failed (ai_agents_active_inbound w)"
    using step1 [OF that(1,2)] step2 [OF that(3)] step3 [OF that(4)]
    by (simp add: routeIncomingCall_def try_catch_def bindE_def Let_def)
  show ?thesis
    using routeIncomingCall_total [of this w cd] routeIncomingCall_null [of this w]
      step1 [of n] step2 step3 rest last down
    by blast
qed

theorem routeIncomingCall_never_throws_witness:
  "lookup_failed (phone_numbers_single world_down (To ex_call)) \<and>
   lookup_failed (ai_agents_by_twilio_single world_down (To ex_call)) \<and>
   lookup_failed (ai_agents_active_hours world_down) \<and>
   lookup_failed (ai_agents_active_inbound world_down) \<and>
   routeIncomingCall ex_service world_down (Some ex_call) = Inr (defaultAgent ex_service) \<and>
   getAgentByPhoneNumber world_down (To ex_call) = Inr None \<and>
   getAgentByBusinessHours world_down ''inbound'' = Inr None \<and>
   getActiveInboundAgent world_down = Inr None"
proof -
  have f: "lookup_failed (phone_numbers_single world_down (To ex_call))"
    "lookup_failed (ai_agents_by_twilio_single world_down (To ex_call))"
    "lookup_failed (ai_agents_active_hours world_down)"
    "lookup_failed (ai_agents_active_inbound world_down)"
    by (simp_all add: lookup_failed_def world_down_def not_found_def)
  show ?thesis
    using f routeIncomingCall_never_throws
      [of ex_service world_down "Some ex_call" ex_call "To ex_call"]
    by blast
qed

text \<open>
  Claim C6, as amended. When the assignment lookup for the called number returns, without
  error, a row whose joined agent is active, \<^verbatim>\<open>routeIncomingCall\<close> returns that agent with
  the routing defaults filled in, whatever its business hours, business days and call
  direction, and whatever the other lookups answer.
\<close>

theorem routeIncomingCall_active_assignment:
  assumes "phone_numbers_single w (To cd) = Inr r" and "error r = None"
    and "data r = Some row" and "ai_agents row = Some ag" and "is_active ag"
  shows "routeIncomingCall this w (Some cd) = Inr (enhanced ag)"
  using assms
  by (simp add: routeIncomingCall_steps spec_assignment_def lookup_ok_def)

theorem routeIncomingCall_active_assignment_witness:
  "routeIncomingCall ex_service world_assigned (Some ex_call) = Inr (enhanced ex_outbound) \<and>
   call_direction (enhanced ex_outbound) = Some ''outbound'' \<and>
   \<not> isAgentAvailable (enhanced ex_outbound) (now_getDay world_assigned) (now_HHMM world_assigned)"
proof -
  have "routeIncomingCall ex_service world_assigned (Some ex_call) = Inr (enhanced ex_outbound)"
    by (rule routeIncomingCall_active_assignment
          [where r = "found \<lparr> phone_number = To ex_call, ai_agents = Some ex_outbound \<rparr>"
             and row = "\<lparr> phone_number = To ex_call, ai_agents = Some ex_outbound \<rparr>"])
       (simp_all add: world_assigned_def world_assigned_inactive_def world_sunday_def world_down_def found_def not_found_def bare_agent_def ex_outbound_def ex_inactive_def ex_service_def constructor_def ex_call_def)
  then show ?thesis
    by (simp add: isAgentAvailable_def enhanced_def world_assigned_def world_assigned_inactive_def world_sunday_def world_down_def found_def not_found_def bare_agent_def ex_outbound_def ex_inactive_def ex_service_def constructor_def ex_call_def js_defs)
qed

text \<open>
  An assignment row joined to an inactive agent is passed over: with no other agent in
  the store the call goes to the Default Agent.
\<close>

theorem routeIncomingCall_inactive_assignment_counterexample:
  "phone_numbers_single world_assigned_inactive (To ex_call) =
     Inr (found \<lparr> phone_number = To ex_call, ai_agents = Some ex_inactive \<rparr>) \<and>
   routeIncomingCall ex_service world_assigned_inactive (Some ex_call) =
     Inr (defaultAgent ex_service) \<and>
   defaultAgent ex_service \<noteq> enhanced ex_inactive \<and>
   defaultAgent ex_service \<noteq> ex_inactive"
  by (simp add: routeIncomingCall_steps spec_defs world_assigned_def world_assigned_inactive_def world_sunday_def world_down_def found_def not_found_def bare_agent_def ex_outbound_def ex_inactive_def ex_service_def constructor_def ex_call_def js_defs)

text \<open>
  Claim C7, as amended. When step 1 finds no agent for the called number, the list of
  active agents is delivered, no inbound-or-both agent of it is open now, and exactly one
  active agent has type after_hours and that agent accepts inbound calls (direction
  inbound, both, or none given), \<^verbatim>\<open>routeIncomingCall\<close> returns that agent with the routing
  defaults filled in.
\<close>

theorem routeIncomingCall_after_hours_fallback:
  assumes "getAgentByPhoneNumber w (To cd) = Inr None"
    and "ai_agents_active_hours w = Inr r" and "error r = None" and "data r = Some agents"
    and "\<forall>a \<in> set agents. accepts ''inbound'' (enhanced a) \<longrightarrow>
           \<not> isAgentAvailable (enhanced a) (now_getDay w) (now_HHMM w)"
    and "filter (\<lambda>a. agent_type a = Some ''after_hours'') agents = [x]"
    and "accepts ''inbound'' (enhanced x)"
  shows "routeIncomingCall this w (Some cd) = Inr (enhanced x)"
proof -
  have rows: "rows_of (ai_agents_active_hours w) = agents"
    using assms(2-4) by (simp add: rows_of_def lookup_ok_def)
  have "spec_open_now w = None"
    unfolding spec_open_now_def rows using assms(5) by (intro find_none) auto
  moreover have "spec_after_hours w = Some (enhanced x)"
    unfolding spec_after_hours_def rows
    using find_unique_after_hours
      [where P = "\<lambda>a. agent_type a = Some ''after_hours''" and xs = agents and x = x
         and f = enhanced and Q = "accepts ''inbound''"
         and P' = "\<lambda>a. agent_type a = Some ''after_hours''"] assms(6,7)
    by (simp add: enhanced_def)
  moreover have "first_success [spec_assignment w (To cd), spec_primary_number w (To cd)] = None"
    using assms(1) by (simp add: getAgentByPhoneNumber_chain)
  ultimately show ?thesis
    by (simp add: routeIncomingCall_steps)
qed

theorem routeIncomingCall_after_hours_fallback_witness:
  "getAgentByPhoneNumber world_sunday (To ex_call) = Inr None \<and>
   filter (\<lambda>a. agent_type a = Some ''after_hours'') [ex_day_agent, ex_night_agent] =
     [ex_night_agent] \<and>
   routeIncomingCall ex_service world_sunday (Some ex_call) = Inr (enhanced ex_night_agent)"
proof -
  have 1: "getAgentByPhoneNumber world_sunday (To ex_call) = Inr None"
    by (simp add: getAgentByPhoneNumber_chain spec_defs world_sunday_def world_night_outbound_def world_down_def found_def not_found_def bare_agent_def ex_day_agent_def ex_night_agent_def ex_night_outbound_def ex_service_def constructor_def ex_call_def)
  have 2: "ai_agents_active_hours world_sunday = Inr (found [ex_day_agent, ex_night_agent])"
    "error (found [ex_day_agent, ex_night_agent]) = None"
    "data (found [ex_day_agent, ex_night_agent]) = Some [ex_day_agent, ex_night_agent]"
    by (simp_all add: world_sunday_def world_night_outbound_def world_down_def found_def not_found_def bare_agent_def ex_day_agent_def ex_night_agent_def ex_night_outbound_def ex_service_def constructor_def ex_call_def)
  have 3: "\<forall>a \<in> set [ex_day_agent, ex_night_agent]. accepts ''inbound'' (enhanced a) \<longrightarrow>
           \<not> isAgentAvailable (enhanced a) (now_getDay world_sunday) (now_HHMM world_sunday)"
    by (simp add: isAgentAvailable_def enhanced_def world_sunday_def world_night_outbound_def world_down_def found_def not_found_def bare_agent_def ex_day_agent_def ex_night_agent_def ex_night_outbound_def ex_service_def constructor_def ex_call_def js_defs)
  have 4: "filter (\<lambda>a. agent_type a = Some ''after_hours'') [ex_day_agent, ex_night_agent] =
     [ex_night_agent]"
    by (simp add: world_sunday_def world_night_outbound_def world_down_def found_def not_found_def bare_agent_def ex_day_agent_def ex_night_agent_def ex_night_outbound_def ex_service_def constructor_def ex_call_def)
  have 5: "accepts ''inbound'' (enhanced ex_night_agent)"
    by (simp add: accepts_def enhanced_def world_sunday_def world_night_outbound_def world_down_def found_def not_found_def bare_agent_def ex_day_agent_def ex_night_agent_def ex_night_outbound_def ex_service_def constructor_def ex_call_def js_defs)
  show ?thesis
    using 1 4 routeIncomingCall_after_hours_fallback [OF 1 2 3 4 5, of ex_service]
    by simp
qed

text \<open>
  The one after-hours agent takes outbound calls only: it is filtered out before the
  after-hours search, and the call goes to the Default Agent.
\<close>

theorem routeIncomingCall_after_hours_outbound_counterexample:
  "getAgentByPhoneNumber world_night_outbound (To ex_call) = Inr None \<and>
   ai_agents_active_hours world_night_outbound = Inr (found [ex_night_outbound]) \<and>
   is_active ex_night_outbound \<and> agent_type ex_night_outbound = Some ''after_hours'' \<and>
   \<not> isAgentAvailable (enhanced ex_night_outbound)
       (now_getDay world_night_outbound) (now_HHMM world_night_outbound) \<and>
   routeIncomingCall ex_service world_night_outbound (Some ex_call) =
     Inr (defaultAgent ex_service) \<and>
   defaultAgent ex_service \<noteq> enhanced ex_night_outbound \<and>
   defaultAgent ex_service \<noteq> ex_night_outbound"
  by (simp add: routeIncomingCall_steps getAgentByPhoneNumber_chain spec_defs world_sunday_def world_night_outbound_def world_down_def found_def not_found_def bare_agent_def ex_day_agent_def ex_night_agent_def ex_night_outbound_def ex_service_def constructor_def ex_call_def js_defs)

text \<open>
  Claim C8. When \<^verbatim>\<open>agentId\<close> names an active agent whose call direction is inbound,
  \<^verbatim>\<open>routeOutboundCall\<close> finds it by id and does not return it: the result is what the
  general search for an active outbound-or-both agent yields, which is never the agent
  looked up, and the Default Agent when that search yields nothing.
\<close>

theorem routeOutboundCall_skips_inbound_agent:
  assumes "i \<noteq> []" and "ai_agents_by_id_single w i = Inr r" and "error r = None"
    and "data r = Some ag" and "is_active ag" and "call_direction ag = Some ''inbound''"
  shows "\<exists>general.
           getAgentById w i = Inr (Some (enhanced ag)) \<and>
           getActiveOutboundAgent w = Inr general \<and>
           routeOutboundCall this w (Some i) cd =
             Inr (case general of None \<Rightarrow> defaultAgent this | Some a \<Rightarrow> a) \<and>
           (case general of
              None \<Rightarrow> True
            | Some a \<Rightarrow> accepts ''outbound'' a \<and> a \<noteq> enhanced ag \<and> a \<noteq> ag)"
proof -
  let ?g = "find (accepts ''outbound'') (map enhanced (rows_of (ai_agents_active_outbound w)))"
  have byid: "getAgentById w i = Inr (Some (enhanced ag))"
    using assms(2-4) by (simp add: getAgentById_lookup lookup_ok_def)
  have dir: "call_direction (enhanced ag) = Some ''inbound''"
    using assms(6) by (simp add: enhanced_def js_or_str_def)
  have route: "routeOutboundCall this w (Some i) cd =
      Inr (case ?g of None \<Rightarrow> defaultAgent this | Some a \<Rightarrow> a)"
    using assms(1) dir
    by (simp add: routeOutboundCall_def try_catch_def bindE_def byid getActiveOutboundAgent_find)
  have "accepts ''outbound'' a \<and> a \<noteq> enhanced ag \<and> a \<noteq> ag" if "?g = Some a" for a
    using find_Some_in_set [OF that] dir assms(6) by (auto simp: accepts_def)
  then have "case ?g of None \<Rightarrow> True | Some a \<Rightarrow> accepts ''outbound'' a \<and> a \<noteq> enhanced ag \<and> a \<noteq> ag"
    by (simp split: option.splits)
  with byid route getActiveOutboundAgent_find [of w] show ?thesis
    by blast
qed

theorem routeOutboundCall_skips_inbound_agent_witness:
  "getAgentById world_outbound ''a7'' = Inr (Some (enhanced ex_inbound)) \<and>
   routeOutboundCall ex_service world_outbound (Some ''a7'') (Some ex_call) =
     Inr (enhanced ex_outbound) \<and>
   getAgentById world_down ''a7'' = Inr None \<and>
   routeOutboundCall ex_service
     (world_down \<lparr> ai_agents_by_id_single := (\<lambda>i. Inr (found ex_inbound)) \<rparr>)
     (Some ''a7'') (Some ex_call) = Inr (defaultAgent ex_service)"
proof -
  have g: "getActiveOutboundAgent world_outbound = Inr (Some (enhanced ex_outbound))"
    by (simp add: getActiveOutboundAgent_find spec_defs world_outbound_def world_down_def found_def not_found_def bare_agent_def ex_inbound_def ex_outbound_def js_defs)
  have g': "getActiveOutboundAgent
      (world_down \<lparr> ai_agents_by_id_single := (\<lambda>i. Inr (found ex_inbound)) \<rparr>) = Inr None"
    by (simp add: getActiveOutboundAgent_find spec_defs world_outbound_def world_down_def found_def not_found_def bare_agent_def ex_inbound_def ex_outbound_def js_defs)
  have "\<exists>general. getAgentById world_outbound ''a7'' = Inr (Some (enhanced ex_inbound)) \<and>
      getActiveOutboundAgent world_outbound = Inr general \<and>
      routeOutboundCall ex_service world_outbound (Some ''a7'') (Some ex_call) =
        Inr (case general of None \<Rightarrow> defaultAgent ex_service | Some a \<Rightarrow> a) \<and>
           (case general of
              None \<Rightarrow> True
            | Some a \<Rightarrow> accepts ''outbound'' a \<and> a \<noteq> enhanced ex_inbound \<and> a \<noteq> ex_inbound)"
    by (rule routeOutboundCall_skips_inbound_agent [where r = "found ex_inbound"])
       (simp_all add: world_outbound_def world_down_def found_def not_found_def bare_agent_def ex_inbound_def ex_outbound_def)
  with g have 1: "getAgentById world_outbound ''a7'' = Inr (Some (enhanced ex_inbound)) \<and>
      routeOutboundCall ex_service world_outbound (Some ''a7'') (Some ex_call) =
        Inr (enhanced ex_outbound)"
    by auto
  have "\<exists>general.
      getAgentById (world_down \<lparr> ai_agents_by_id_single := (\<lambda>i. Inr (found ex_inbound)) \<rparr>) ''a7'' =
        Inr (Some (enhanced ex_inbound)) \<and>
      getActiveOutboundAgent
        (world_down \<lparr> ai_agents_by_id_single := (\<lambda>i. Inr (found ex_inbound)) \<rparr>) = Inr general \<and>
      routeOutboundCall ex_service
        (world_down \<lparr> ai_agents_by_id_single := (\<lambda>i. Inr (found ex_inbound)) \<rparr>)
        (Some ''a7'') (Some ex_call) =
        Inr (case general of None \<Rightarrow> defaultAgent ex_service | Some a \<Rightarrow> a) \<and>
           (case general of
              None \<Rightarrow> True
            | Some a \<Rightarrow> accepts ''outbound'' a \<and> a \<noteq> enhanced ex_inbound \<and> a \<noteq> ex_inbound)"
    by (rule routeOutboundCall_skips_inbound_agent [where r = "found ex_inbound"])
       (simp_all add: world_outbound_def world_down_def found_def not_found_def bare_agent_def ex_inbound_def ex_outbound_def)
  with g' have 2: "routeOutboundCall ex_service
        (world_down \<lparr> ai_agents_by_id_single := (\<lambda>i. Inr (found ex_inbound)) \<rparr>)
        (Some ''a7'') (Some ex_call) = Inr (defaultAgent ex_service)"
    by auto
  have 3: "getAgentById world_down ''a7'' = Inr None"
    by (simp add: getAgentById_lookup lookup_ok_def world_outbound_def world_down_def found_def not_found_def bare_agent_def ex_inbound_def ex_outbound_def)
  from 1 2 3 show ?thesis by simp
qed

text \<open>
  Claim C9. Whatever the store answers, \<^verbatim>\<open>routeIncomingCall\<close> and \<^verbatim>\<open>routeOutboundCall\<close> of
  a constructed service return an agent whose call direction, timezone, business-hours
  start, business-hours end and business days are all present.
\<close>

theorem routed_agents_have_availability_fields:
  "(\<exists>a. routeIncomingCall (constructor env) w cd = Inr a \<and> availability_fields_present a) \<and>
   (\<exists>a. routeOutboundCall (constructor env) w' i cd' = Inr a \<and> availability_fields_present a)"
proof -
  have "\<exists>a. routeIncomingCall (constructor env) w cd = Inr a \<and> availability_fields_present a"
  proof (cases cd)
    case None
    then show ?thesis
      by (simp add: routeIncomingCall_null default_fields_present)
  next
    case (Some c)
    show ?thesis
      unfolding Some routeIncomingCall_steps
      by (cases "spec_assignment w (To c)"; cases "spec_primary_number w (To c)";
          cases "spec_open_now w"; cases "spec_after_hours w"; cases "spec_any_inbound w")
         (simp_all add: spec_steps_present default_fields_present)
  qed
  moreover have "\<exists>a. routeOutboundCall (constructor env) w' i cd' = Inr a \<and> availability_fields_present a"
    using routeOutboundCall_total [of "constructor env" w' i cd']
    by (auto simp: default_fields_present enhanced_fields_present)
  ultimately show ?thesis ..
qed

theorem routed_agents_have_availability_fields_witness:
  "routeIncomingCall ex_service world_down (Some ex_call) = Inr (defaultAgent ex_service) \<and>
   availability_fields_present (defaultAgent ex_service) \<and>
   routeOutboundCall ex_service world_outbound (Some ''a7'') None = Inr (enhanced ex_outbound) \<and>
   availability_fields_present (enhanced ex_outbound)"
proof -
  have 1: "routeIncomingCall ex_service world_down (Some ex_call) = Inr (defaultAgent ex_service)"
    by (simp add: routeIncomingCall_steps spec_defs world_outbound_def world_down_def found_def not_found_def bare_agent_def ex_inbound_def ex_outbound_def ex_service_def constructor_def ex_call_def)
  have 2: "routeOutboundCall ex_service world_outbound (Some ''a7'') None =
      Inr (enhanced ex_outbound)"
    by (simp add: routeOutboundCall_def try_catch_def bindE_def getAgentById_lookup
          getActiveOutboundAgent_find spec_defs world_outbound_def world_down_def found_def not_found_def bare_agent_def ex_inbound_def ex_outbound_def ex_service_def constructor_def ex_call_def js_defs)
  show ?thesis
    using routed_agents_have_availability_fields
      [of "\<lparr> VOICE_NAME = None, LANGUAGE_CODE = None, SYSTEM_INSTRUCTION = None \<rparr>"
        world_down "Some ex_call" world_outbound "Some ''a7''" None]
    unfolding ex_service_def [symmetric] 1 2
    by simp
qed

text \<open>
  Claim C10. When the fetched agent record has a missing, null or zero
  \<^verbatim>\<open>max_concurrent_calls\<close> and the count query answers without error, the limit used is 5
  and the result is whether the number of in-progress calls is below 5.
\<close>

theorem canAgentHandleCall_default_limit:
  assumes "ai_agents_limit_single w i = Inr r" and "error r = None" and "data r = Some row"
    and "limit_max_concurrent_calls row = None \<or> limit_max_concurrent_calls row = Some 0"
    and "call_logs_in_progress w i = Inr c" and "error c = None"
  shows "js_or_num (limit_max_concurrent_calls row) 5 = 5 \<and>
         canAgentHandleCall w i =
           Inr ((case data c of None \<Rightarrow> 0 | Some rows \<Rightarrow> int (length rows)) < 5)"
  using assms
  by (auto simp: canAgentHandleCall_def try_catch_def bindE_def js_or_num_def)

theorem canAgentHandleCall_default_limit_witness:
  "canAgentHandleCall world_two_calls ''a1'' = Inr True \<and>
   canAgentHandleCall world_five_calls ''a1'' = Inr False"
  using canAgentHandleCall_default_limit [of world_two_calls "''a1''"
      "found \<lparr> limit_max_concurrent_calls = Some 0 \<rparr>" "\<lparr> limit_max_concurrent_calls = Some 0 \<rparr>"
      "found [''c1'', ''c2'']"]
    canAgentHandleCall_default_limit [of world_five_calls "''a1''"
      "found \<lparr> limit_max_concurrent_calls = None \<rparr>" "\<lparr> limit_max_concurrent_calls = None \<rparr>"
      "found [''c1'', ''c2'', ''c3'', ''c4'', ''c5'']"]
  by (simp add: world_two_calls_def world_five_calls_def world_down_def found_def not_found_def)

end
